theory Spec2Isabelle
  imports Complex_Main "HOL-Library.Word"
begin

section \<open>Data model of \<open>CPointPDFParticles\<close>\<close>

text \<open>
  The class keeps its samples in \<open>m_particles\<close>, a sequence of
  \<open>CProbabilityParticle\<close> over \<open>TPoint3Df\<close> values. The header reaches a particle's fields
  as \<open>it->log_w\<close> (a \<open>double\<close>) and \<open>it->d->x\<close>, \<open>it->d->y\<close>, \<open>it->d->z\<close> (the
  \<open>float\<close> coordinates of the point that \<open>d\<close> owns). Every particle owns its point, so
  a particle is a value here. Both floating-point types are read as real numbers: rounding,
  infinities and NaN are outside this development.
\<close>

record TPoint3Df =
  x :: real
  y :: real
  z :: real

record CProbabilityParticle =
  log_w :: real
  d :: TPoint3Df

type_synonym CParticleList = "CProbabilityParticle list"

record CPointPDFParticles =
  m_particles :: CParticleList

text \<open>\<open>size_t size() const { return m_particles.size(); }\<close>\<close>

definition size_particles :: "CPointPDFParticles \<Rightarrow> nat" where
  "size_particles this = length (m_particles this)"

section \<open>The Particle Ensemble Store\<close>

text \<open>
  Modelled from the spec: the bodies of \<open>clear\<close> and \<open>setSize\<close> are not in the header,
  which only declares them (\<open>setSize\<close> with the default value \<open>TPoint3Df{0, 0, 0}\<close>).
  Spec 4.1: \<open>clear()\<close> empties the ensemble; after \<open>setSize(n, default_value)\<close> the
  ensemble is exactly \<open>n\<close> particles, each holding \<open>default_value\<close> with \<open>log_weight == 0\<close>,
  and any previous content is discarded.
\<close>

definition clear :: "CPointPDFParticles \<Rightarrow> CPointPDFParticles" where
  "clear this = this\<lparr>m_particles := []\<rparr>"

definition setSize :: "nat \<Rightarrow> TPoint3Df \<Rightarrow> CPointPDFParticles \<Rightarrow> CPointPDFParticles" where
  "setSize numberParticles defaultValue this =
     (clear this)\<lparr>m_particles := replicate numberParticles \<lparr>log_w = 0, d = defaultValue\<rparr>\<rparr>"

text \<open>The default argument of \<open>setSize\<close>, \<open>TPoint3Df{0, 0, 0}\<close>, which \<open>serializeFrom\<close> relies on.\<close>

definition defaultValue0 :: TPoint3Df where
  "defaultValue0 = \<lparr>x = 0, y = 0, z = 0\<rparr>"

section \<open>Failures\<close>

text \<open>
  What can end a call early. \<open>MRPT_THROW_UNKNOWN_SERIALIZATION_VERSION(version)\<close> raises
  an exception that carries the version. \<open>NegativeIndex\<close> is the failure of the schema
  on an element access with a negative index. \<open>SignedOverflow\<close> stands for \<open>++k\<close> on
  an \<open>int\<close> that holds \<open>INT_MAX\<close>: C++ leaves that undefined, the model stops there
  and says nothing about what would follow.
\<close>

datatype error =
    UnknownSerializationVersion "8 word"
  | PreconditionViolation
  | NegativeIndex
  | SignedOverflow

definition INT_MAX :: int where
  "INT_MAX = 2147483647"

definition then_do :: "error + 'a \<Rightarrow> ('a \<Rightarrow> error + 'b) \<Rightarrow> error + 'b" where
  "then_do r f = (case r of Inl e \<Rightarrow> Inl e | Inr v \<Rightarrow> f v)"

section \<open>The structured schema\<close>

text \<open>
  Modelled from the spec: \<open>SCHEMA_CAPABLE\<close> is a template parameter of \<open>serializeTo\<close>
  and \<open>serializeFrom\<close>; no type that instantiates it is in the header. Spec 9 describes it
  as a generic tree of maps, arrays and scalars, and the two functions use it through
  \<open>v[key]\<close>, \<open>v[index]\<close>, \<open>v.get(key, default)\<close>, assignment of scalars, comparison with a
  string and conversion to \<open>uint8_t\<close>, \<open>uint32_t\<close> and the floating-point types. The tree
  below gives these operations the reading of a JSON value: a default-constructed value is
  null, reading a member that is not there or an element past the end gives null, an
  element access with a negative index fails, assigning through a path creates what is
  missing on the way, and a conversion never fails: an integer converts to a narrower
  unsigned type by truncation of its bits and a floating-point number converts to an
  integer by dropping its fraction, as the C++ conversions do; null and the values that are
  no numbers convert to zero.
\<close>

datatype schema =
    SNull
  | SInt int
  | SReal real
  | SStr string
  | SArr "schema list"
  | SObj "(string \<times> schema) list"

text \<open>\<open>v[key]\<close> read, and \<open>v.get(key, default)\<close>.\<close>

fun schema_get :: "string \<Rightarrow> schema \<Rightarrow> schema \<Rightarrow> schema" where
  "schema_get key dflt (SObj kvs) = (case map_of kvs key of Some v \<Rightarrow> v | None \<Rightarrow> dflt)"
| "schema_get key dflt v = dflt"

definition schema_member :: "string \<Rightarrow> schema \<Rightarrow> schema" where
  "schema_member key v = schema_get key SNull v"


text \<open>\<open>v[k]\<close> read, with the \<open>int\<close> index of the source.\<close>

fun schema_index :: "int \<Rightarrow> schema \<Rightarrow> error + schema" where
  "schema_index k (SArr vs) =
     (if k < 0 then Inl NegativeIndex
      else if k < int (length vs) then Inr (vs ! nat k) else Inr SNull)"
| "schema_index k v = (if k < 0 then Inl NegativeIndex else Inr SNull)"

text \<open>
  An assignment through a path: the function argument is what happens to the member or
  element that the path selects. A value that is not an object (an array) is replaced by
  a new one first; an array grows with nulls up to the index.
\<close>

fun update_kv :: "string \<Rightarrow> (schema \<Rightarrow> schema) \<Rightarrow> (string \<times> schema) list
                  \<Rightarrow> (string \<times> schema) list" where
  "update_kv key f [] = [(key, f SNull)]"
| "update_kv key f (kv # kvs) =
     (if fst kv = key then (key, f (snd kv)) # kvs else kv # update_kv key f kvs)"

fun member_upd :: "string \<Rightarrow> (schema \<Rightarrow> schema) \<Rightarrow> schema \<Rightarrow> schema" where
  "member_upd key f (SObj kvs) = SObj (update_kv key f kvs)"
| "member_upd key f v = SObj [(key, f SNull)]"

definition update_elem :: "nat \<Rightarrow> (schema \<Rightarrow> schema) \<Rightarrow> schema list \<Rightarrow> schema list" where
  "update_elem i f vs =
     (if i < length vs then vs[i := f (vs ! i)]
      else vs @ replicate (i - length vs) SNull @ [f SNull])"

fun index_upd :: "nat \<Rightarrow> (schema \<Rightarrow> schema) \<Rightarrow> schema \<Rightarrow> schema" where
  "index_upd i f (SArr vs) = SArr (update_elem i f vs)"
| "index_upd i f v = SArr (update_elem i f [])"

text \<open>\<open>out["particles"][k][key] = v\<close>, with the \<open>int\<close> index of the source.\<close>

definition assign_field :: "int \<Rightarrow> string \<Rightarrow> schema \<Rightarrow> schema \<Rightarrow> error + schema" where
  "assign_field k key v out =
     (if k < 0 then Inl NegativeIndex
      else Inr (member_upd ''particles'' (index_upd (nat k) (member_upd key (\<lambda>_. v))) out))"

text \<open>Conversions of a schema value to the C++ types of the source.\<close>

fun as_int :: "schema \<Rightarrow> int" where
  "as_int (SInt i) = i"
| "as_int (SReal r) = (if 0 \<le> r then floor r else ceiling r)"
| "as_int v = 0"

fun as_real :: "schema \<Rightarrow> real" where
  "as_real (SReal r) = r"
| "as_real (SInt i) = of_int i"
| "as_real v = 0"

definition as_uint8 :: "schema \<Rightarrow> 8 word" where
  "as_uint8 v = word_of_int (as_int v)"

definition as_uint32 :: "schema \<Rightarrow> 32 word" where
  "as_uint32 v = word_of_int (as_int v)"

text \<open>\<open>in["particles"][k][key]\<close> converted to a floating-point number.\<close>

definition read_field :: "schema \<Rightarrow> int \<Rightarrow> string \<Rightarrow> error + real" where
  "read_field inp k key =
     then_do (schema_index k (schema_member ''particles'' inp))
       (\<lambda>v. Inr (as_real (schema_member key v)))"

section \<open>The codec\<close>

subsection \<open>\<open>serializeTo\<close>\<close>

text \<open>
  The loop of \<open>serializeTo\<close> walks \<open>m_particles\<close> from \<open>begin()\<close> to \<open>end()\<close> with the
  counter \<open>int k = 0\<close>, which it increments at the end of every pass: with \<open>2^31\<close>
  particles or more the increment overflows. The cast \<open>(uint32_t)size()\<close> is a 32-bit
  word. The method is \<open>const\<close>: it returns the schema, or the failure, together with the
  object as it leaves it.
\<close>

definition write_particle :: "int \<Rightarrow> CProbabilityParticle \<Rightarrow> schema \<Rightarrow> error + schema" where
  "write_particle k it out =
     then_do (assign_field k ''log_w'' (SReal (log_w it)) out) (\<lambda>out.
     then_do (assign_field k ''x'' (SReal (x (d it))) out) (\<lambda>out.
     then_do (assign_field k ''y'' (SReal (y (d it))) out) (\<lambda>out.
     assign_field k ''z'' (SReal (z (d it))) out)))"

fun serializeTo_loop :: "CParticleList \<Rightarrow> int \<Rightarrow> schema \<Rightarrow> error + schema" where
  "serializeTo_loop [] k out = Inr out"
| "serializeTo_loop (it # rest) k out =
     then_do (write_particle k it out) (\<lambda>out.
       if k = INT_MAX then Inl SignedOverflow else serializeTo_loop rest (k + 1) out)"

definition serializeTo :: "string \<Rightarrow> CPointPDFParticles
                           \<Rightarrow> (error + schema) \<times> CPointPDFParticles" where
  "serializeTo className this =
     (let out = SNull;
          out = member_upd ''datatype'' (\<lambda>_. SStr className) out;
          out = member_upd ''version'' (\<lambda>_. SInt 1) out;
          out = member_upd ''N''
                  (\<lambda>_. SInt (uint (word_of_nat (size_particles this) :: 32 word))) out
      in (serializeTo_loop (m_particles this) 0 out, this))"

subsection \<open>\<open>serializeFrom\<close>\<close>

text \<open>
  The decoding loop declares its counter as \<open>int k;\<close> with no initialiser (the encoding
  loop has \<open>int k = 0;\<close>), so the value it starts from is indeterminate: it is the
  argument \<open>k_init\<close> of the model, a 32-bit word read as a signed number. The class name
  that \<open>GetRuntimeClass()\<close> reports comes from a macro outside the header and is the
  argument \<open>className\<close>. The version is converted before the \<open>datatype\<close> is compared, as
  in the source; the schema, which the method takes by reference, is only read. When a
  pass of the loop fails, the object is what the passes before it made of it.
\<close>

definition read_particle :: "schema \<Rightarrow> int \<Rightarrow> CProbabilityParticle
                             \<Rightarrow> (error + unit) \<times> CProbabilityParticle" where
  "read_particle inp k it =
     (case read_field inp k ''log_w'' of Inl e \<Rightarrow> (Inl e, it) | Inr a \<Rightarrow>
      (let it = it\<lparr>log_w := a\<rparr> in
       case read_field inp k ''x'' of Inl e \<Rightarrow> (Inl e, it) | Inr a \<Rightarrow>
       (let it = it\<lparr>d := (d it)\<lparr>x := a\<rparr>\<rparr> in
        case read_field inp k ''y'' of Inl e \<Rightarrow> (Inl e, it) | Inr a \<Rightarrow>
        (let it = it\<lparr>d := (d it)\<lparr>y := a\<rparr>\<rparr> in
         case read_field inp k ''z'' of Inl e \<Rightarrow> (Inl e, it) | Inr a \<Rightarrow>
         (Inr (), it\<lparr>d := (d it)\<lparr>z := a\<rparr>\<rparr>)))))"

fun serializeFrom_loop :: "schema \<Rightarrow> CParticleList \<Rightarrow> int
                           \<Rightarrow> (error + unit) \<times> CParticleList" where
  "serializeFrom_loop inp [] k = (Inr (), [])"
| "serializeFrom_loop inp (it # rest) k =
     (case read_particle inp k it of
        (Inl e, it') \<Rightarrow> (Inl e, it' # rest)
      | (Inr u, it') \<Rightarrow>
          if k = INT_MAX then (Inl SignedOverflow, it' # rest)
          else (case serializeFrom_loop inp rest (k + 1) of (r, rest') \<Rightarrow> (r, it' # rest')))"

definition serializeFrom :: "string \<Rightarrow> 32 word \<Rightarrow> schema \<Rightarrow> CPointPDFParticles
                             \<Rightarrow> (error + unit) \<times> CPointPDFParticles" where
  "serializeFrom className k_init inp this =
     (let version = as_uint8 (schema_get ''version'' (SInt 0) inp) in
      if schema_member ''datatype'' inp = SStr className then
        (if version = 1 then
           (let N = as_uint32 (schema_member ''N'' inp);
                this = setSize (unat N) defaultValue0 this;
                res = serializeFrom_loop inp (m_particles this) (sint k_init)
            in (fst res, this\<lparr>m_particles := snd res\<rparr>))
         else (Inl (UnknownSerializationVersion version), this))
      else (Inr (), this))"

section \<open>The Statistical Estimator\<close>

text \<open>
  Modelled from the spec: the header declares \<open>getMean\<close> and \<open>getCovarianceAndMean\<close>
  and holds neither body. Spec 4.2: the weights are normalized by subtracting the maximum
  log-weight before exponentiating and rescaling so that they sum to 1; \<open>getMean\<close> is the
  weight-normalized arithmetic mean, and the zero point for an empty ensemble;
  \<open>getCovarianceAndMean\<close> returns that mean and the symmetric 3x3 matrix
  \<open>\<Sum> w_i (p_i - mean)(p_i - mean)\<^sup>t\<close> over the same weights. Both are \<open>const\<close> and
  write their results to reference parameters, which are the values returned here.
\<close>

type_synonym CPoint3D = "real \<times> real \<times> real"
type_synonym CMatrixDouble33 = "real list list"

fun max_log_w :: "CParticleList \<Rightarrow> real" where
  "max_log_w [] = 0"
| "max_log_w [p] = log_w p"
| "max_log_w (p # q # ps) = max (log_w p) (max_log_w (q # ps))"

definition normalized_weights :: "CParticleList \<Rightarrow> real list" where
  "normalized_weights ps =
     (let m = max_log_w ps;
          us = map (\<lambda>p. exp (log_w p - m)) ps;
          s = sum_list us
      in map (\<lambda>u. u / s) us)"

definition weighted_sum :: "real list \<Rightarrow> real list \<Rightarrow> real" where
  "weighted_sum ws vs = sum_list (map (\<lambda>(w, v). w * v) (zip ws vs))"

definition getMean :: "CPointPDFParticles \<Rightarrow> CPoint3D" where
  "getMean this =
     (let ps = m_particles this in
      if ps = [] then (0, 0, 0)
      else
        (let ws = normalized_weights ps
         in (weighted_sum ws (map (\<lambda>p. x (d p)) ps),
             weighted_sum ws (map (\<lambda>p. y (d p)) ps),
             weighted_sum ws (map (\<lambda>p. z (d p)) ps))))"

definition getCovarianceAndMean :: "CPointPDFParticles \<Rightarrow> CMatrixDouble33 \<times> CPoint3D" where
  "getCovarianceAndMean this =
     (let ps = m_particles this;
          mean_point = getMean this;
          ws = normalized_weights ps;
          dx = map (\<lambda>p. x (d p) - fst mean_point) ps;
          dy = map (\<lambda>p. y (d p) - fst (snd mean_point)) ps;
          dz = map (\<lambda>p. z (d p) - snd (snd mean_point)) ps;
          cxx = weighted_sum ws (map (\<lambda>(a, b). a * b) (zip dx dx));
          cxy = weighted_sum ws (map (\<lambda>(a, b). a * b) (zip dx dy));
          cxz = weighted_sum ws (map (\<lambda>(a, b). a * b) (zip dx dz));
          cyy = weighted_sum ws (map (\<lambda>(a, b). a * b) (zip dy dy));
          cyz = weighted_sum ws (map (\<lambda>(a, b). a * b) (zip dy dz));
          czz = weighted_sum ws (map (\<lambda>(a, b). a * b) (zip dz dz))
      in ([[cxx, cxy, cxz], [cxy, cyy, cyz], [cxz, cyz, czz]], mean_point))"

text \<open>Adding a constant to the log-weight of every particle of an ensemble.\<close>

definition add_log_w :: "real \<Rightarrow> CPointPDFParticles \<Rightarrow> CPointPDFParticles" where
  "add_log_w c this = this\<lparr>m_particles := map (\<lambda>p. p\<lparr>log_w := log_w p + c\<rparr>) (m_particles this)\<rparr>"

section \<open>The Sampler\<close>

text \<open>
  Modelled from the spec: the header declares \<open>drawSingleSample\<close> and does not hold its
  body. Spec 4.4: one particle's point is selected with probability proportional to its
  normalized weight (same normalization as the estimator) and returned verbatim; on an
  empty ensemble the call is an explicit precondition failure. Spec 9 asks for an explicit
  random source: the argument \<open>u\<close> is the draw, a number in \<open>[0, 1)\<close>, and the particle
  selected is the first whose cumulative weight exceeds it. The method is \<open>const\<close>; the
  object is returned beside the result.
\<close>

fun select_by_weight :: "real \<Rightarrow> (real \<times> TPoint3Df) list \<Rightarrow> TPoint3Df option" where
  "select_by_weight u [] = None"
| "select_by_weight u [wp] = Some (snd wp)"
| "select_by_weight u (wp # wq # rest) =
     (if u < fst wp then Some (snd wp) else select_by_weight (u - fst wp) (wq # rest))"

definition drawSingleSample :: "real \<Rightarrow> CPointPDFParticles
                                \<Rightarrow> (error + CPoint3D) \<times> CPointPDFParticles" where
  "drawSingleSample u this =
     (if m_particles this = [] then (Inl PreconditionViolation, this)
      else
        (case select_by_weight u
                (zip (normalized_weights (m_particles this)) (map d (m_particles this))) of
           None \<Rightarrow> (Inl PreconditionViolation, this)
         | Some p \<Rightarrow> (Inr (x p, y p, z p), this)))"

section \<open>Auxiliary definitions for the proofs\<close>

text \<open>
  The value that the loop body of \<open>serializeTo\<close> leaves at \<open>particles[k]\<close>, and the three
  members written before the loop, as association lists.
\<close>

definition particle_obj :: "CProbabilityParticle \<Rightarrow> schema" where
  "particle_obj p = SObj [(''log_w'', SReal (log_w p)), (''x'', SReal (x (d p))),
                          (''y'', SReal (y (d p))), (''z'', SReal (z (d p)))]"

definition header :: "string \<Rightarrow> nat \<Rightarrow> (string \<times> schema) list" where
  "header className n = [(''datatype'', SStr className), (''version'', SInt 1),
                         (''N'', SInt (int (n mod 2 ^ 32)))]"

section \<open>Properties of the schema operations and of the encoder\<close>

lemma update_kv_absent:
  "key \<notin> fst ` set kvs \<Longrightarrow> update_kv key f kvs = kvs @ [(key, f SNull)]"
  by (induction kvs) auto

lemma update_kv_last:
  "key \<notin> fst ` set kvs \<Longrightarrow> update_kv key f (kvs @ [(key, v)]) = kvs @ [(key, f v)]"
  by (induction kvs) auto

lemma update_elem_append: "update_elem (length vs) f vs = vs @ [f SNull]"
  by (simp add: update_elem_def)

lemma update_elem_last: "update_elem (length vs) f (vs @ [v]) = vs @ [f v]"
  by (simp add: update_elem_def)

text \<open>One pass of the loop body appends the particle's object to the array.\<close>

lemma write_particle_first:
  assumes "''particles'' \<notin> fst ` set hdr"
  shows "write_particle 0 it (SObj hdr)
         = Inr (SObj (hdr @ [(''particles'', SArr [particle_obj it])]))"
  using assms update_elem_last [of "[]"]
  by (simp add: write_particle_def assign_field_def then_do_def particle_obj_def
      update_kv_absent update_kv_last update_elem_def)

lemma write_particle_next:
  assumes "''particles'' \<notin> fst ` set hdr"
  shows "write_particle (int (length vs)) it (SObj (hdr @ [(''particles'', SArr vs)]))
         = Inr (SObj (hdr @ [(''particles'', SArr (vs @ [particle_obj it]))]))"
  using assms
  by (simp add: write_particle_def assign_field_def then_do_def particle_obj_def
      update_kv_last update_elem_append update_elem_last)

lemma write_particle_nonneg: "0 \<le> k \<Longrightarrow> \<exists>out'. write_particle k it out = Inr out'"
  by (simp add: write_particle_def assign_field_def then_do_def)

text \<open>The loop below the overflow of its counter.\<close>

lemma serializeTo_loop_append:
  assumes "''particles'' \<notin> fst ` set hdr"
  shows "int (length vs) + int (length ps) \<le> INT_MAX \<Longrightarrow>
         serializeTo_loop ps (int (length vs)) (SObj (hdr @ [(''particles'', SArr vs)]))
         = Inr (SObj (hdr @ [(''particles'', SArr (vs @ map particle_obj ps))]))"
proof (induction ps arbitrary: vs)
  case Nil
  then show ?case by simp
next
  case (Cons p ps)
  from Cons.prems have not_max: "int (length vs) \<noteq> INT_MAX"
    and rest: "int (length (vs @ [particle_obj p])) + int (length ps) \<le> INT_MAX"
    by simp_all
  have "serializeTo_loop (p # ps) (int (length vs)) (SObj (hdr @ [(''particles'', SArr vs)]))
        = serializeTo_loop ps (int (length (vs @ [particle_obj p])))
            (SObj (hdr @ [(''particles'', SArr (vs @ [particle_obj p]))]))"
    using not_max by (simp add: write_particle_next [OF assms] then_do_def add.commute)
  also have "\<dots> = Inr (SObj (hdr @ [(''particles'', SArr ((vs @ [particle_obj p]) @ map particle_obj ps))]))"
    using rest by (rule Cons.IH)
  finally show ?case by simp
qed

lemma serializeTo_loop_nonempty:
  assumes "''particles'' \<notin> fst ` set hdr" and "1 + int (length ps) \<le> INT_MAX"
  shows "serializeTo_loop (p # ps) 0 (SObj hdr)
         = Inr (SObj (hdr @ [(''particles'', SArr (map particle_obj (p # ps)))]))"
proof -
  have "0 \<noteq> INT_MAX" by (simp add: INT_MAX_def)
  moreover have "int (length [particle_obj p]) + int (length ps) \<le> INT_MAX"
    using assms(2) by simp
  ultimately show ?thesis
    using serializeTo_loop_append [OF assms(1), of "[particle_obj p]" ps]
    by (simp add: write_particle_first [OF assms(1)] then_do_def)
qed

text \<open>The loop at the overflow of its counter: too long a list ends in \<open>SignedOverflow\<close>.\<close>

lemma serializeTo_loop_overflow:
  "0 \<le> k \<Longrightarrow> k \<le> INT_MAX \<Longrightarrow> INT_MAX < k + int (length ps) \<Longrightarrow>
   serializeTo_loop ps k out = Inl SignedOverflow"
proof (induction ps arbitrary: k out)
  case Nil
  then show ?case by simp
next
  case (Cons p ps)
  from Cons.prems(1) obtain out' where w: "write_particle k p out = Inr out'"
    using write_particle_nonneg by blast
  show ?case
  proof (cases "k = INT_MAX")
    case True
    with w show ?thesis by (simp add: then_do_def)
  next
    case False
    with Cons.prems have "0 \<le> k + 1" "k + 1 \<le> INT_MAX" "INT_MAX < (k + 1) + int (length ps)"
      by simp_all
    then have "serializeTo_loop ps (k + 1) out' = Inl SignedOverflow"
      by (rule Cons.IH)
    with w False show ?thesis by (simp add: then_do_def)
  qed
qed

text \<open>
  The whole schema that \<open>serializeTo\<close> returns for an ensemble that the counter can walk.
  An empty ensemble never reaches the loop body, so its schema has no \<open>particles\<close> member.
\<close>

lemma serializeTo_start:
  "fst (serializeTo className this)
   = serializeTo_loop (m_particles this) 0 (SObj (header className (size_particles this)))"
  by (simp add: serializeTo_def header_def unsigned_of_nat take_bit_eq_mod
      del: serializeTo_loop.simps)

lemma serializeTo_schema:
  assumes "int (size_particles this) \<le> INT_MAX"
  shows "fst (serializeTo className this) =
     Inr (if m_particles this = [] then SObj (header className 0)
          else SObj (header className (size_particles this)
                     @ [(''particles'', SArr (map particle_obj (m_particles this)))]))"
proof (cases "m_particles this")
  case Nil
  then show ?thesis
    by (simp add: serializeTo_start size_particles_def)
next
  case (Cons p ps)
  have h: "''particles'' \<notin> fst ` set (header className (size_particles this))"
    by (simp add: header_def)
  have len: "1 + int (length ps) \<le> INT_MAX"
    using assms Cons by (simp add: size_particles_def)
  show ?thesis
    using Cons by (simp only: serializeTo_start serializeTo_loop_nonempty [OF h len]) simp
qed

lemma header_fields:
  "schema_member ''datatype'' (SObj (header className n @ kvs)) = SStr className"
  "schema_member ''version'' (SObj (header className n @ kvs)) = SInt 1"
  "schema_get ''version'' dflt (SObj (header className n @ kvs)) = SInt 1"
  "schema_member ''N'' (SObj (header className n @ kvs)) = SInt (int (n mod 2 ^ 32))"
  "schema_member ''particles'' (SObj (header className n @ [(''particles'', v)])) = v"
  by (simp_all add: schema_member_def header_def)

lemma header_fields_only:
  "schema_member ''datatype'' (SObj (header className n)) = SStr className"
  "schema_member ''version'' (SObj (header className n)) = SInt 1"
  "schema_get ''version'' dflt (SObj (header className n)) = SInt 1"
  "schema_member ''N'' (SObj (header className n)) = SInt (int (n mod 2 ^ 32))"
  by (simp_all add: schema_member_def header_def)

lemma mod_2_32_small: "int n \<le> INT_MAX \<Longrightarrow> n mod 2 ^ 32 = n"
proof -
  assume "int n \<le> INT_MAX"
  then have "int n < 2 ^ 32" by (simp add: INT_MAX_def)
  then have "n < 2 ^ 32" by (simp only: of_nat_less_numeral_power_cancel_iff)
  then show ?thesis by (rule mod_less)
qed

lemma serializeTo_fields_small:
  assumes "int (size_particles this) \<le> INT_MAX"
  shows "\<exists>out. fst (serializeTo className this) = Inr out \<and>
           schema_member ''datatype'' out = SStr className \<and>
           schema_member ''version'' out = SInt 1 \<and>
           schema_get ''version'' dflt out = SInt 1 \<and>
           schema_member ''N'' out = SInt (int (size_particles this)) \<and>
           (m_particles this \<noteq> [] \<longrightarrow>
              schema_member ''particles'' out = SArr (map particle_obj (m_particles this)))"
proof (cases "m_particles this = []")
  case True
  then have "size_particles this = 0" by (simp add: size_particles_def)
  with True show ?thesis
    by (simp add: serializeTo_schema [OF assms] header_def schema_member_def)
next
  case False
  let ?out = "SObj (header className (size_particles this)
                     @ [(''particles'', SArr (map particle_obj (m_particles this)))])"
  have out: "fst (serializeTo className this) = Inr ?out"
    using False by (simp only: serializeTo_schema [OF assms] if_False)
  have small: "size_particles this mod 2 ^ 32 = size_particles this"
    using assms by (rule mod_2_32_small)
  have n: "schema_member ''N'' ?out = SInt (int (size_particles this))"
    by (simp only: header_fields(4) small)
  show ?thesis
  proof (intro exI conjI impI)
    show "fst (serializeTo className this) = Inr ?out" by (rule out)
  qed (simp_all only: n header_fields(1,2,3,5))
qed

section \<open>Properties of the decoder\<close>

lemma length_serializeFrom_loop: "length (snd (serializeFrom_loop inp ps k)) = length ps"
proof (induction ps arbitrary: k)
  case Nil
  then show ?case by simp
next
  case (Cons p ps)
  obtain r it' where rp: "read_particle inp k p = (r, it')"
    by fastforce
  obtain r' rest' where rec: "serializeFrom_loop inp ps (k + 1) = (r', rest')"
    by fastforce
  have "length rest' = length ps"
    using Cons.IH [of "k + 1"] rec by simp
  then show ?case
    using rp rec by (cases r) simp_all
qed

lemma unat_as_uint32: "0 \<le> n \<Longrightarrow> n < 2 ^ 32 \<Longrightarrow> unat (as_uint32 (SInt n)) = nat n"
  by (simp add: as_uint32_def unat_eq_nat_uint uint_word_of_int)

lemma unat_as_uint32_nat: "unat (as_uint32 (SInt (int m))) = m mod 2 ^ 32"
proof -
  have "as_uint32 (SInt (int m)) = (word_of_nat m :: 32 word)"
    by (simp add: as_uint32_def)
  then show ?thesis
    by (simp only: unat_of_nat) simp
qed

lemma unat_as_uint32_small:
  assumes "int m \<le> INT_MAX"
  shows "unat (as_uint32 (SInt (int m))) = m"
  using mod_2_32_small [OF assms] by (simp only: unat_as_uint32_nat)

text \<open>The \<open>uint8_t\<close> that an integer version is read into is 1 exactly for \<open>v mod 256 = 1\<close>.\<close>

lemma as_uint8_SInt: "as_uint8 (SInt v) = 1 \<longleftrightarrow> v mod 256 = 1"
proof -
  have "uint (word_of_int v :: 8 word) = v mod 256"
    by (simp add: uint_word_of_int)
  moreover have "(word_of_int v :: 8 word) = 1 \<longleftrightarrow> uint (word_of_int v :: 8 word) = 1"
    by (metis uint_1 word_uint_eq_iff)
  ultimately show ?thesis
    by (simp add: as_uint8_def)
qed

text \<open>The branch \<open>case 1\<close>: the target is resized and then filled by the loop.\<close>

lemma serializeFrom_decodes:
  assumes "schema_member ''datatype'' inp = SStr className"
    and "as_uint8 (schema_get ''version'' (SInt 0) inp) = 1"
  shows "serializeFrom className k inp this =
           (fst (serializeFrom_loop inp
              (replicate (unat (as_uint32 (schema_member ''N'' inp)))
                 \<lparr>log_w = 0, d = defaultValue0\<rparr>) (sint k)),
            this\<lparr>m_particles := snd (serializeFrom_loop inp
              (replicate (unat (as_uint32 (schema_member ''N'' inp)))
                 \<lparr>log_w = 0, d = defaultValue0\<rparr>) (sint k))\<rparr>)"
  using assms by (simp add: serializeFrom_def setSize_def clear_def Let_def)

text \<open>
  The loop returns when its counter starts at a value that is not negative and stays below
  the overflow; it fails on its first pass when the counter starts negative.
\<close>

lemma read_particle_nonneg: "0 \<le> k \<Longrightarrow> fst (read_particle inp k it) = Inr ()"
  by (cases "schema_member ''particles'' inp")
     (simp_all add: read_particle_def read_field_def then_do_def Let_def)

lemma serializeFrom_loop_returns:
  "0 \<le> k \<Longrightarrow> k + int (length ps) \<le> INT_MAX \<Longrightarrow> fst (serializeFrom_loop inp ps k) = Inr ()"
proof (induction ps arbitrary: k)
  case Nil
  then show ?case by simp
next
  case (Cons p ps)
  from Cons.prems have "k \<noteq> INT_MAX" "0 \<le> k + 1" "(k + 1) + int (length ps) \<le> INT_MAX"
    by simp_all
  moreover from this have "fst (serializeFrom_loop inp ps (k + 1)) = Inr ()"
    by (intro Cons.IH)
  moreover have "fst (read_particle inp k p) = Inr ()"
    using Cons.prems(1) by (rule read_particle_nonneg)
  ultimately show ?case
    by (auto split: prod.splits sum.splits)
qed

lemma serializeFrom_loop_negative:
  "k < 0 \<Longrightarrow> serializeFrom_loop inp (it # rest) k = (Inl NegativeIndex, it # rest)"
  by (cases "schema_member ''particles'' inp")
     (simp_all add: read_particle_def read_field_def then_do_def)

lemma read_particle_obj:
  assumes "schema_index k (schema_member ''particles'' inp) = Inr (particle_obj p)"
  shows "read_particle inp k it = (Inr (), p)"
  using assms
  by (simp add: read_particle_def read_field_def then_do_def particle_obj_def schema_member_def)

lemma serializeFrom_loop_roundtrip:
  assumes "schema_member ''particles'' inp = SArr (vs @ map particle_obj ps)"
  shows "length ts = length ps \<Longrightarrow> int (length vs) + int (length ps) \<le> INT_MAX \<Longrightarrow>
         serializeFrom_loop inp ts (int (length vs)) = (Inr (), ps)"
  using assms
proof (induction ps arbitrary: ts vs)
  case Nil
  then show ?case by simp
next
  case (Cons p ps)
  then obtain t ts' where ts: "ts = t # ts'" and len: "length ts' = length ps"
    by (cases ts) auto
  from Cons.prems(2) have not_max: "int (length vs) \<noteq> INT_MAX"
    and rest: "int (length (vs @ [particle_obj p])) + int (length ps) \<le> INT_MAX"
    by simp_all
  have "schema_index (int (length vs)) (schema_member ''particles'' inp) = Inr (particle_obj p)"
    using Cons.prems(3) by simp
  then have first: "read_particle inp (int (length vs)) t = (Inr (), p)"
    by (rule read_particle_obj)
  have "schema_member ''particles'' inp = SArr ((vs @ [q]) @ map particle_obj ps)"
    if "q = particle_obj p" for q
    using Cons.prems(3) that by simp
  then have "serializeFrom_loop inp ts' (int (length (vs @ [particle_obj p]))) = (Inr (), ps)"
    using Cons.IH [OF len rest] by blast
  then show ?case using first ts not_max by (simp add: add.commute)
qed

text \<open>
  Had the decoding loop started its counter at 0, as the encoding loop does, decoding what
  \<open>serializeTo\<close> wrote would give the ensemble back, for every ensemble that the
  counter can walk and whatever the target held before.
\<close>

lemma serializeFrom_serializeTo_k0:
  assumes "int (size_particles this) \<le> INT_MAX"
  shows "\<exists>out. fst (serializeTo className this) = Inr out \<and>
               serializeFrom className 0 out that = (Inr (), this)"
proof -
  obtain out where out: "fst (serializeTo className this) = Inr out"
    and dt: "schema_member ''datatype'' out = SStr className"
    and ver: "schema_get ''version'' (SInt 0) out = SInt 1"
    and n: "schema_member ''N'' out = SInt (int (size_particles this))"
    and ps: "m_particles this \<noteq> [] \<longrightarrow>
             schema_member ''particles'' out = SArr (map particle_obj (m_particles this))"
    using serializeTo_fields_small [OF assms, of className "SInt 0"] by blast
  have v: "as_uint8 (schema_get ''version'' (SInt 0) out) = 1"
    by (simp add: ver as_uint8_def)
  have cnt: "unat (as_uint32 (schema_member ''N'' out)) = size_particles this"
    using unat_as_uint32_small [OF assms] by (simp only: n)
  have loop: "serializeFrom_loop out
          (replicate (size_particles this) \<lparr>log_w = 0, d = defaultValue0\<rparr>) (sint (0 :: 32 word))
          = (Inr (), m_particles this)"
  proof (cases "m_particles this = []")
    case True
    then show ?thesis by (simp add: size_particles_def)
  next
    case False
    have "serializeFrom_loop out
            (replicate (size_particles this) \<lparr>log_w = 0, d = defaultValue0\<rparr>)
            (int (length ([]::schema list))) = (Inr (), m_particles this)"
    proof (rule serializeFrom_loop_roundtrip)
      show "schema_member ''particles'' out = SArr ([] @ map particle_obj (m_particles this))"
        using ps False by simp
      show "length (replicate (size_particles this) \<lparr>log_w = 0, d = defaultValue0\<rparr>)
            = length (m_particles this)"
        by (simp add: size_particles_def)
      show "int (length ([]::schema list)) + int (length (m_particles this)) \<le> INT_MAX"
        using assms by (simp add: size_particles_def)
    qed
    then show ?thesis by simp
  qed
  have "serializeFrom className 0 out that = (Inr (), that\<lparr>m_particles := m_particles this\<rparr>)"
    by (simp only: serializeFrom_decodes [OF dt v] cnt loop fst_conv snd_conv)
  then have "serializeFrom className 0 out that = (Inr (), this)" by simp
  with out show ?thesis by blast
qed

section \<open>Properties of the estimator\<close>

lemma max_log_w_shift:
  "ps \<noteq> [] \<Longrightarrow> max_log_w (map (\<lambda>p. p\<lparr>log_w := log_w p + c\<rparr>) ps) = max_log_w ps + c"
  by (induction ps rule: max_log_w.induct) simp_all

lemma normalized_weights_shift:
  "normalized_weights (map (\<lambda>p. p\<lparr>log_w := log_w p + c\<rparr>) ps) = normalized_weights ps"
proof (cases "ps = []")
  case True
  then show ?thesis by (simp add: normalized_weights_def)
next
  case False
  have "map (\<lambda>p. exp (log_w p - max_log_w (map (\<lambda>p. p\<lparr>log_w := log_w p + c\<rparr>) ps)))
            (map (\<lambda>p. p\<lparr>log_w := log_w p + c\<rparr>) ps)
        = map (\<lambda>p. exp (log_w p - max_log_w ps)) ps"
    by (simp add: max_log_w_shift [OF False] comp_def)
  then show ?thesis
    by (simp only: normalized_weights_def Let_def)
qed

lemma coords_shift:
  "map (\<lambda>p. x (d p) - a) (map (\<lambda>p. p\<lparr>log_w := log_w p + c\<rparr>) ps) = map (\<lambda>p. x (d p) - a) ps"
  "map (\<lambda>p. y (d p) - a) (map (\<lambda>p. p\<lparr>log_w := log_w p + c\<rparr>) ps) = map (\<lambda>p. y (d p) - a) ps"
  "map (\<lambda>p. z (d p) - a) (map (\<lambda>p. p\<lparr>log_w := log_w p + c\<rparr>) ps) = map (\<lambda>p. z (d p) - a) ps"
  by (simp_all add: comp_def)

lemma getMean_shift: "getMean (add_log_w c this) = getMean this"
  by (simp add: getMean_def add_log_w_def Let_def normalized_weights_shift comp_def)

lemma getCovarianceAndMean_shift:
  "getCovarianceAndMean (add_log_w c this) = getCovarianceAndMean this"
proof -
  have "m_particles (add_log_w c this) = map (\<lambda>p. p\<lparr>log_w := log_w p + c\<rparr>) (m_particles this)"
    by (simp add: add_log_w_def)
  then show ?thesis
    by (simp only: getCovarianceAndMean_def Let_def getMean_shift normalized_weights_shift
        coords_shift)
qed

text \<open>
  The example of spec 8: three particles at \<open>(1,0,0)\<close>, \<open>(-1,0,0)\<close>, \<open>(0,1,0)\<close> with
  log-weight 0 have the mean \<open>(0, 1/3, 0)\<close>.
\<close>

lemma getMean_example:
  "getMean \<lparr>m_particles = [\<lparr>log_w = 0, d = \<lparr>x = 1, y = 0, z = 0\<rparr>\<rparr>,
                            \<lparr>log_w = 0, d = \<lparr>x = - 1, y = 0, z = 0\<rparr>\<rparr>,
                            \<lparr>log_w = 0, d = \<lparr>x = 0, y = 1, z = 0\<rparr>\<rparr>]\<rparr> = (0, 1 / 3, 0)"
  by (simp add: getMean_def normalized_weights_def weighted_sum_def)

section \<open>The claims\<close>

text \<open>
  Claim C1: encoding an ensemble with \<open>serializeTo\<close> and decoding the schema with
  \<open>serializeFrom\<close> into a fresh instance of the same size reproduces \<open>(x, y, z, log_w)\<close>
  of every particle. The decoding loop reads \<open>in["particles"][k]\<close> with a counter that was
  never initialised. Where the counter starts at 1, a one-particle ensemble with
  \<open>log_w = 1/2\<close> at the point \<open>(1, 2, 3)\<close> comes back as the particle with \<open>log_w = 0\<close> at
  \<open>(0, 0, 0)\<close>: the loop reads the absent element 1 of the array. Lemma
  \<open>serializeFrom_serializeTo_k0\<close> is the round trip for the counter started at 0.
\<close>

theorem serializeFrom_uninitialized_k:
  "fst (serializeTo ''CPointPDFParticles''
        \<lparr>m_particles = [\<lparr>log_w = 1 / 2, d = \<lparr>x = 1, y = 2, z = 3\<rparr>\<rparr>]\<rparr>)
   = Inr (SObj [(''datatype'', SStr ''CPointPDFParticles''), (''version'', SInt 1),
                (''N'', SInt 1),
                (''particles'', SArr [SObj [(''log_w'', SReal (1 / 2)), (''x'', SReal 1),
                                            (''y'', SReal 2), (''z'', SReal 3)]])]) \<and>
   serializeFrom ''CPointPDFParticles'' 1
     (SObj [(''datatype'', SStr ''CPointPDFParticles''), (''version'', SInt 1),
            (''N'', SInt 1),
            (''particles'', SArr [SObj [(''log_w'', SReal (1 / 2)), (''x'', SReal 1),
                                        (''y'', SReal 2), (''z'', SReal 3)]])])
     (setSize 1 defaultValue0 \<lparr>m_particles = []\<rparr>)
   = (Inr (), \<lparr>m_particles = [\<lparr>log_w = 0, d = \<lparr>x = 0, y = 0, z = 0\<rparr>\<rparr>]\<rparr>)"
proof -
  have "int (size_particles \<lparr>m_particles = [\<lparr>log_w = 1 / 2, d = \<lparr>x = 1, y = 2, z = 3\<rparr>\<rparr>]\<rparr>)
        \<le> INT_MAX"
    by (simp add: size_particles_def INT_MAX_def)
  then have "fst (serializeTo ''CPointPDFParticles''
        \<lparr>m_particles = [\<lparr>log_w = 1 / 2, d = \<lparr>x = 1, y = 2, z = 3\<rparr>\<rparr>]\<rparr>)
   = Inr (SObj [(''datatype'', SStr ''CPointPDFParticles''), (''version'', SInt 1),
                (''N'', SInt 1),
                (''particles'', SArr [SObj [(''log_w'', SReal (1 / 2)), (''x'', SReal 1),
                                            (''y'', SReal 2), (''z'', SReal 3)]])])"
    by (simp add: serializeTo_schema header_def particle_obj_def size_particles_def)
  moreover have "serializeFrom ''CPointPDFParticles'' 1
     (SObj [(''datatype'', SStr ''CPointPDFParticles''), (''version'', SInt 1),
            (''N'', SInt 1),
            (''particles'', SArr [SObj [(''log_w'', SReal (1 / 2)), (''x'', SReal 1),
                                        (''y'', SReal 2), (''z'', SReal 3)]])])
     (setSize 1 defaultValue0 \<lparr>m_particles = []\<rparr>)
   = (Inr (), \<lparr>m_particles = [\<lparr>log_w = 0, d = \<lparr>x = 0, y = 0, z = 0\<rparr>\<rparr>]\<rparr>)"
    by (simp add: serializeFrom_def schema_member_def as_uint8_def as_uint32_def setSize_def
        clear_def read_particle_def read_field_def then_do_def defaultValue0_def INT_MAX_def)
  ultimately show ?thesis by (rule conjI)
qed

text \<open>
  Claim C2: a schema whose \<open>datatype\<close> matches and whose version is not 1 makes
  \<open>serializeFrom\<close> fail with the unknown-version error and leaves the ensemble unchanged.
  The version is read into a \<open>uint8_t\<close>, so the version 257 is taken for 1 and decoded:
  the counterexample. The claim holds for every schema whose version is absent (it is then
  read as 0) or an integer \<open>v\<close> with \<open>v mod 256 \<noteq> 1\<close>; the error carries \<open>v\<close> as a
  \<open>uint8_t\<close>.
\<close>

theorem serializeFrom_version_257_counterexample:
  "schema_member ''datatype''
     (SObj [(''datatype'', SStr ''CPointPDFParticles''), (''version'', SInt 257), (''N'', SInt 0)])
     = SStr ''CPointPDFParticles'' \<and>
   schema_get ''version'' (SInt 0)
     (SObj [(''datatype'', SStr ''CPointPDFParticles''), (''version'', SInt 257), (''N'', SInt 0)])
     \<noteq> SInt 1 \<and>
   serializeFrom ''CPointPDFParticles'' 0
     (SObj [(''datatype'', SStr ''CPointPDFParticles''), (''version'', SInt 257), (''N'', SInt 0)])
     \<lparr>m_particles = [\<lparr>log_w = 1, d = \<lparr>x = 1, y = 2, z = 3\<rparr>\<rparr>]\<rparr>
   = (Inr (), \<lparr>m_particles = []\<rparr>)"
  by (simp add: serializeFrom_def schema_member_def as_uint8_def as_uint32_def setSize_def
      clear_def)

theorem serializeFrom_unknown_version:
  "schema_member ''datatype'' inp = SStr className \<Longrightarrow>
   schema_get ''version'' (SInt 0) inp = SInt v \<Longrightarrow> v mod 256 \<noteq> 1 \<Longrightarrow>
   serializeFrom className k_init inp this =
     (Inl (UnknownSerializationVersion (word_of_int v)), this)"
proof -
  assume dt: "schema_member ''datatype'' inp = SStr className"
    and ver: "schema_get ''version'' (SInt 0) inp = SInt v" and v: "v mod 256 \<noteq> 1"
  from v have "as_uint8 (SInt v) \<noteq> 1"
    by (simp only: as_uint8_SInt not_False_eq_True)
  moreover have "as_uint8 (SInt v) = word_of_int v"
    by (simp add: as_uint8_def)
  ultimately show ?thesis
    using dt by (simp add: serializeFrom_def ver)
qed

theorem serializeFrom_unknown_version_witness:
  "schema_member ''datatype''
     (SObj [(''datatype'', SStr ''CPointPDFParticles''), (''version'', SInt 2), (''N'', SInt 0)])
     = SStr ''CPointPDFParticles'' \<and>
   schema_get ''version'' (SInt 0)
     (SObj [(''datatype'', SStr ''CPointPDFParticles''), (''version'', SInt 2), (''N'', SInt 0)])
     = SInt 2 \<and> (2::int) mod 256 \<noteq> 1 \<and>
   serializeFrom ''CPointPDFParticles'' 0
     (SObj [(''datatype'', SStr ''CPointPDFParticles''), (''version'', SInt 2), (''N'', SInt 0)])
     \<lparr>m_particles = [\<lparr>log_w = 1, d = \<lparr>x = 1, y = 2, z = 3\<rparr>\<rparr>]\<rparr>
   = (Inl (UnknownSerializationVersion 2),
      \<lparr>m_particles = [\<lparr>log_w = 1, d = \<lparr>x = 1, y = 2, z = 3\<rparr>\<rparr>]\<rparr>)"
  using serializeFrom_unknown_version [of
     "SObj [(''datatype'', SStr ''CPointPDFParticles''), (''version'', SInt 2), (''N'', SInt 0)]"
     "''CPointPDFParticles''" 2 0 "\<lparr>m_particles = [\<lparr>log_w = 1, d = \<lparr>x = 1, y = 2, z = 3\<rparr>\<rparr>]\<rparr>"]
  by (simp add: schema_member_def)

text \<open>
  Claim C3: a schema whose \<open>datatype\<close> does not match the class name is skipped:
  \<open>serializeFrom\<close> raises nothing and leaves the ensemble unchanged, whatever the version
  and the other contents of the schema are.
\<close>

theorem serializeFrom_datatype_mismatch:
  "schema_member ''datatype'' inp \<noteq> SStr className \<Longrightarrow>
   serializeFrom className k_init inp this = (Inr (), this)"
  by (simp add: serializeFrom_def)

theorem serializeFrom_datatype_mismatch_witness:
  "schema_member ''datatype''
     (SObj [(''datatype'', SStr ''CPosePDFGaussian''), (''version'', SInt 7), (''N'', SInt 2)])
     \<noteq> SStr ''CPointPDFParticles'' \<and>
   serializeFrom ''CPointPDFParticles'' 0
     (SObj [(''datatype'', SStr ''CPosePDFGaussian''), (''version'', SInt 7), (''N'', SInt 2)])
     \<lparr>m_particles = [\<lparr>log_w = 1, d = \<lparr>x = 1, y = 2, z = 3\<rparr>\<rparr>]\<rparr>
   = (Inr (), \<lparr>m_particles = [\<lparr>log_w = 1, d = \<lparr>x = 1, y = 2, z = 3\<rparr>\<rparr>]\<rparr>)"
  using serializeFrom_datatype_mismatch [of
     "SObj [(''datatype'', SStr ''CPosePDFGaussian''), (''version'', SInt 7), (''N'', SInt 2)]"
     "''CPointPDFParticles''" 0 "\<lparr>m_particles = [\<lparr>log_w = 1, d = \<lparr>x = 1, y = 2, z = 3\<rparr>\<rparr>]\<rparr>"]
  by (simp add: schema_member_def)

text \<open>
  Claim C4: for every ensemble \<open>serializeTo\<close> writes \<open>datatype\<close> (the class name),
  \<open>version\<close> equal to 1, \<open>N\<close> equal to the particle count and, for every \<open>i\<close> below the
  count, \<open>particles[i]\<close> with \<open>log_w\<close>, \<open>x\<close>, \<open>y\<close>, \<open>z\<close> of the \<open>i\<close>-th particle. The
  loop counts the particles in an \<open>int\<close>: on an ensemble of \<open>2^31\<close> particles the
  increment that ends the last pass overflows, and the call has no defined result: the
  counterexample. The claim holds, as it is stated, for every ensemble of fewer than
  \<open>2^31\<close> particles.
\<close>

theorem serializeTo_overflow_counterexample:
  "size_particles
     \<lparr>m_particles = replicate 2147483648 \<lparr>log_w = 0, d = \<lparr>x = 0, y = 0, z = 0\<rparr>\<rparr>\<rparr>
     = 2147483648 \<and>
   fst (serializeTo ''CPointPDFParticles''
      \<lparr>m_particles = replicate 2147483648 \<lparr>log_w = 0, d = \<lparr>x = 0, y = 0, z = 0\<rparr>\<rparr>\<rparr>)
     = Inl SignedOverflow"
proof -
  have "serializeTo_loop (replicate 2147483648 \<lparr>log_w = 0, d = \<lparr>x = 0, y = 0, z = 0\<rparr>\<rparr>) 0 out
        = Inl SignedOverflow" for out
    by (rule serializeTo_loop_overflow) (simp_all add: INT_MAX_def)
  then show ?thesis
    by (simp add: serializeTo_start size_particles_def)
qed

theorem serializeTo_fields:
  "size_particles this < 2 ^ 31 \<Longrightarrow>
   \<exists>out. fst (serializeTo className this) = Inr out \<and>
     schema_member ''datatype'' out = SStr className \<and>
     schema_member ''version'' out = SInt 1 \<and>
     schema_member ''N'' out = SInt (int (size_particles this)) \<and>
     (\<forall>i < size_particles this.
        schema_index (int i) (schema_member ''particles'' out) =
          Inr (SObj [(''log_w'', SReal (log_w (m_particles this ! i))),
                     (''x'', SReal (x (d (m_particles this ! i)))),
                     (''y'', SReal (y (d (m_particles this ! i)))),
                     (''z'', SReal (z (d (m_particles this ! i))))]))"
proof -
  assume "size_particles this < 2 ^ 31"
  then have small: "int (size_particles this) \<le> INT_MAX"
    by (simp add: INT_MAX_def)
  obtain out where out: "fst (serializeTo className this) = Inr out"
    and dt: "schema_member ''datatype'' out = SStr className"
    and ver: "schema_member ''version'' out = SInt 1"
    and n: "schema_member ''N'' out = SInt (int (size_particles this))"
    and ps: "m_particles this \<noteq> [] \<longrightarrow>
             schema_member ''particles'' out = SArr (map particle_obj (m_particles this))"
    using serializeTo_fields_small [OF small, of className SNull] by blast
  have "schema_index (int i) (schema_member ''particles'' out) =
        Inr (particle_obj (m_particles this ! i))" if "i < size_particles this" for i
  proof -
    from that have "m_particles this \<noteq> []" by (auto simp: size_particles_def)
    with ps that show ?thesis by (simp add: size_particles_def)
  qed
  with out dt ver n show ?thesis
    by (simp add: particle_obj_def)
qed

theorem serializeTo_fields_witness:
  "size_particles
      \<lparr>m_particles = [\<lparr>log_w = 1 / 2, d = \<lparr>x = 1, y = 2, z = 3\<rparr>\<rparr>,
                       \<lparr>log_w = - 1, d = \<lparr>x = 4, y = 5, z = 6\<rparr>\<rparr>]\<rparr> < 2 ^ 31 \<and>
   (\<exists>out. fst (serializeTo ''CPointPDFParticles''
      \<lparr>m_particles = [\<lparr>log_w = 1 / 2, d = \<lparr>x = 1, y = 2, z = 3\<rparr>\<rparr>,
                       \<lparr>log_w = - 1, d = \<lparr>x = 4, y = 5, z = 6\<rparr>\<rparr>]\<rparr>) = Inr out \<and>
     schema_member ''N'' out = SInt 2 \<and>
     schema_index 1 (schema_member ''particles'' out)
       = Inr (SObj [(''log_w'', SReal (- 1)), (''x'', SReal 4), (''y'', SReal 5),
                    (''z'', SReal 6)]))"
proof -
  let ?T = "\<lparr>m_particles = [\<lparr>log_w = 1 / 2, d = \<lparr>x = 1, y = 2, z = 3\<rparr>\<rparr>,
                             \<lparr>log_w = - 1, d = \<lparr>x = 4, y = 5, z = 6\<rparr>\<rparr>]\<rparr>"
  have small: "size_particles ?T < 2 ^ 31"
    by (simp add: size_particles_def)
  have one: "(1::nat) < size_particles ?T"
    by (simp add: size_particles_def)
  from serializeTo_fields [OF small, of "''CPointPDFParticles''"]
  obtain out where out: "fst (serializeTo ''CPointPDFParticles'' ?T) = Inr out"
    and n: "schema_member ''N'' out = SInt (int (size_particles ?T))"
    and all: "\<forall>i < size_particles ?T.
        schema_index (int i) (schema_member ''particles'' out) =
          Inr (SObj [(''log_w'', SReal (log_w (m_particles ?T ! i))),
                     (''x'', SReal (x (d (m_particles ?T ! i)))),
                     (''y'', SReal (y (d (m_particles ?T ! i)))),
                     (''z'', SReal (z (d (m_particles ?T ! i))))])"
    by blast
  from n have n2: "schema_member ''N'' out = SInt 2"
    by (simp add: size_particles_def)
  from all one have
    "schema_index (int 1) (schema_member ''particles'' out)
     = Inr (SObj [(''log_w'', SReal (log_w (m_particles ?T ! 1))),
                  (''x'', SReal (x (d (m_particles ?T ! 1)))),
                  (''y'', SReal (y (d (m_particles ?T ! 1)))),
                  (''z'', SReal (z (d (m_particles ?T ! 1))))])"
    by blast
  then have "schema_index 1 (schema_member ''particles'' out)
     = Inr (SObj [(''log_w'', SReal (- 1)), (''x'', SReal 4), (''y'', SReal 5), (''z'', SReal 6)])"
    by simp
  with small out n2 show ?thesis by blast
qed

text \<open>
  Claim C5: after \<open>setSize(n, v)\<close> the ensemble holds exactly \<open>n\<close> particles, every
  particle's point is \<open>v\<close> and every log-weight is 0; what the ensemble held before is
  discarded (the result is the same from any earlier content), and \<open>n = 0\<close> gives the
  empty ensemble.
\<close>

theorem setSize_uniform:
  "size_particles (setSize n v this) = n \<and>
   (\<forall>i < n. d (m_particles (setSize n v this) ! i) = v \<and>
            log_w (m_particles (setSize n v this) ! i) = 0) \<and>
   setSize n v this = setSize n v that \<and>
   m_particles (setSize 0 v this) = []"
  by (simp add: setSize_def clear_def size_particles_def)

theorem setSize_uniform_witness:
  "size_particles (setSize 2 \<lparr>x = 1, y = 2, z = 3\<rparr>
      \<lparr>m_particles = [\<lparr>log_w = 5, d = \<lparr>x = 7, y = 8, z = 9\<rparr>\<rparr>]\<rparr>) = 2 \<and>
   (1::nat) < 2 \<and>
   d (m_particles (setSize 2 \<lparr>x = 1, y = 2, z = 3\<rparr>
      \<lparr>m_particles = [\<lparr>log_w = 5, d = \<lparr>x = 7, y = 8, z = 9\<rparr>\<rparr>]\<rparr>) ! 1)
     = \<lparr>x = 1, y = 2, z = 3\<rparr> \<and>
   log_w (m_particles (setSize 2 \<lparr>x = 1, y = 2, z = 3\<rparr>
      \<lparr>m_particles = [\<lparr>log_w = 5, d = \<lparr>x = 7, y = 8, z = 9\<rparr>\<rparr>]\<rparr>) ! 1) = 0"
  using setSize_uniform [of 2 "\<lparr>x = 1, y = 2, z = 3\<rparr>"
      "\<lparr>m_particles = [\<lparr>log_w = 5, d = \<lparr>x = 7, y = 8, z = 9\<rparr>\<rparr>]\<rparr>"]
  by simp

text \<open>
  Claim C6: adding a constant \<open>c\<close> to the log-weight of every particle changes neither
  the result of \<open>getMean\<close> nor that of \<open>getCovarianceAndMean\<close>.
\<close>

theorem mean_cov_shift_invariant:
  "getMean (add_log_w c this) = getMean this \<and>
   getCovarianceAndMean (add_log_w c this) = getCovarianceAndMean this"
  by (simp only: getMean_shift getCovarianceAndMean_shift)

text \<open>
  Claim C7: \<open>drawSingleSample\<close> on an empty ensemble fails at once with a precondition
  violation and leaves the ensemble as it was.
\<close>

theorem drawSingleSample_empty:
  "m_particles this = [] \<Longrightarrow> drawSingleSample u this = (Inl PreconditionViolation, this)"
  by (simp add: drawSingleSample_def)

theorem drawSingleSample_empty_witness:
  "m_particles \<lparr>m_particles = []\<rparr> = [] \<and>
   drawSingleSample (1 / 2) \<lparr>m_particles = []\<rparr>
     = (Inl PreconditionViolation, \<lparr>m_particles = []\<rparr>)"
  using drawSingleSample_empty [of "\<lparr>m_particles = []\<rparr>" "1 / 2"] by simp

text \<open>
  Claim C8: for a schema whose \<open>datatype\<close> matches and whose version is 1, after
  \<open>serializeFrom\<close> returns the particle count is the schema's \<open>N\<close>, whatever the size of
  the ensemble was before. \<open>N\<close> is read into a \<open>uint32_t\<close>, so the schema with
  \<open>N = 4294967296\<close> leaves an empty ensemble: the counterexample. The claim holds for every
  schema whose \<open>N\<close> is an integer with \<open>0 \<le> N < 2^32\<close>. Lemma
  \<open>serializeFrom_loop_returns\<close> says from which starts of the counter the loop returns.
\<close>

theorem serializeFrom_N_counterexample:
  "schema_member ''datatype''
     (SObj [(''datatype'', SStr ''CPointPDFParticles''), (''version'', SInt 1),
            (''N'', SInt 4294967296)]) = SStr ''CPointPDFParticles'' \<and>
   schema_get ''version'' (SInt 0)
     (SObj [(''datatype'', SStr ''CPointPDFParticles''), (''version'', SInt 1),
            (''N'', SInt 4294967296)]) = SInt 1 \<and>
   schema_member ''N''
     (SObj [(''datatype'', SStr ''CPointPDFParticles''), (''version'', SInt 1),
            (''N'', SInt 4294967296)]) = SInt 4294967296 \<and>
   serializeFrom ''CPointPDFParticles'' 0
     (SObj [(''datatype'', SStr ''CPointPDFParticles''), (''version'', SInt 1),
            (''N'', SInt 4294967296)])
     \<lparr>m_particles = [\<lparr>log_w = 1, d = \<lparr>x = 1, y = 2, z = 3\<rparr>\<rparr>]\<rparr>
   = (Inr (), \<lparr>m_particles = []\<rparr>) \<and>
   size_particles \<lparr>m_particles = []\<rparr> = 0"
  by (simp add: serializeFrom_def schema_member_def as_uint8_def as_uint32_def setSize_def
      clear_def size_particles_def)

theorem serializeFrom_size:
  "schema_member ''datatype'' inp = SStr className \<Longrightarrow>
   schema_get ''version'' (SInt 0) inp = SInt 1 \<Longrightarrow>
   schema_member ''N'' inp = SInt n \<Longrightarrow> 0 \<le> n \<Longrightarrow> n < 2 ^ 32 \<Longrightarrow>
   serializeFrom className k_init inp this = (Inr (), that) \<Longrightarrow>
   int (size_particles that) = n"
proof -
  assume dt: "schema_member ''datatype'' inp = SStr className"
    and ver: "schema_get ''version'' (SInt 0) inp = SInt 1"
    and n: "schema_member ''N'' inp = SInt n" and range: "0 \<le> n" "n < 2 ^ 32"
    and ret: "serializeFrom className k_init inp this = (Inr (), that)"
  have v: "as_uint8 (schema_get ''version'' (SInt 0) inp) = 1"
    by (simp add: ver as_uint8_def)
  have cnt: "unat (as_uint32 (schema_member ''N'' inp)) = nat n"
    using range by (simp only: n unat_as_uint32)
  from ret have "that = this\<lparr>m_particles := snd (serializeFrom_loop inp
              (replicate (nat n) \<lparr>log_w = 0, d = defaultValue0\<rparr>) (sint k_init))\<rparr>"
    by (simp only: serializeFrom_decodes [OF dt v] cnt) simp
  then have "size_particles that = nat n"
    by (simp add: size_particles_def length_serializeFrom_loop)
  with range(1) show ?thesis by simp
qed

theorem serializeFrom_size_witness:
  "schema_member ''datatype''
     (SObj [(''datatype'', SStr ''CPointPDFParticles''), (''version'', SInt 1), (''N'', SInt 2)])
     = SStr ''CPointPDFParticles'' \<and>
   schema_get ''version'' (SInt 0)
     (SObj [(''datatype'', SStr ''CPointPDFParticles''), (''version'', SInt 1), (''N'', SInt 2)])
     = SInt 1 \<and>
   schema_member ''N''
     (SObj [(''datatype'', SStr ''CPointPDFParticles''), (''version'', SInt 1), (''N'', SInt 2)])
     = SInt 2 \<and> (0::int) \<le> 2 \<and> (2::int) < 2 ^ 32 \<and>
   serializeFrom ''CPointPDFParticles'' 0
     (SObj [(''datatype'', SStr ''CPointPDFParticles''), (''version'', SInt 1), (''N'', SInt 2)])
     \<lparr>m_particles = []\<rparr>
   = (Inr (), \<lparr>m_particles = [\<lparr>log_w = 0, d = \<lparr>x = 0, y = 0, z = 0\<rparr>\<rparr>,
                                \<lparr>log_w = 0, d = \<lparr>x = 0, y = 0, z = 0\<rparr>\<rparr>]\<rparr>) \<and>
   int (size_particles \<lparr>m_particles = [\<lparr>log_w = 0, d = \<lparr>x = 0, y = 0, z = 0\<rparr>\<rparr>,
                                      \<lparr>log_w = 0, d = \<lparr>x = 0, y = 0, z = 0\<rparr>\<rparr>]\<rparr>) = 2"
proof -
  let ?inp = "SObj [(''datatype'', SStr ''CPointPDFParticles''), (''version'', SInt 1),
                    (''N'', SInt 2)]"
  let ?that = "\<lparr>m_particles = [\<lparr>log_w = 0, d = \<lparr>x = 0, y = 0, z = 0\<rparr>\<rparr>,
                                \<lparr>log_w = 0, d = \<lparr>x = 0, y = 0, z = 0\<rparr>\<rparr>]\<rparr>"
  have dt: "schema_member ''datatype'' ?inp = SStr ''CPointPDFParticles''"
    and ver: "schema_get ''version'' (SInt 0) ?inp = SInt 1"
    and n: "schema_member ''N'' ?inp = SInt 2"
    by (simp_all add: schema_member_def)
  have v: "as_uint8 (schema_get ''version'' (SInt 0) ?inp) = 1"
    by (simp add: as_uint8_def)
  have cnt: "unat (as_uint32 (schema_member ''N'' ?inp)) = Suc (Suc 0)"
    by (simp add: n unat_as_uint32 numeral_2_eq_2)
  have ret: "serializeFrom ''CPointPDFParticles'' 0 ?inp \<lparr>m_particles = []\<rparr> = (Inr (), ?that)"
    by (simp only: serializeFrom_decodes [OF dt v] cnt)
       (simp add: schema_member_def read_particle_def read_field_def then_do_def
          defaultValue0_def INT_MAX_def)
  have "int (size_particles ?that) = 2"
    using serializeFrom_size [OF dt ver n _ _ ret] by simp
  with dt ver n ret show ?thesis by simp
qed

text \<open>
  Claim C9: \<open>serializeTo\<close> is read-only: the object after the call, with its particle
  count and every particle's coordinates and log-weight, is the object before the call.
\<close>

theorem serializeTo_read_only: "snd (serializeTo className this) = this"
  by (simp add: serializeTo_def Let_def)





end
